theory Spec2Isabelle
  imports Main "HOL-Library.Word"
begin

section \<open>Secret cache and file watcher of app/server.js\<close>

text \<open>
  A shallow embedding of \<^verbatim>\<open>app/server.js\<close>: the module-level cache, the function
  \<^verbatim>\<open>readSecretFromDisk\<close>, the watcher set-up with its listener and its delayed reload, and
  the express handlers. Everything the module reads from outside (process environment,
  filesystem, clock) is an explicit argument; everything it mutates (the cache, the installed
  watches, the pending timers, the console) is a field of an explicit state that every
  function returns updated. A JavaScript exception is the left injection of a sum, carrying
  the error and the state reached when it was thrown.
\<close>

subsection \<open>JavaScript strings\<close>

text \<open>A JavaScript string is a sequence of UTF-16 code units.\<close>

type_synonym jsstring = "16 word list"

definition js :: "string \<Rightarrow> jsstring" where
  "js s = map of_char s"

text \<open>
  \<^verbatim>\<open>String.prototype.trim\<close> removes, from both ends, the code units of the ECMAScript
  productions WhiteSpace and LineTerminator.
\<close>

definition isWhiteSpace :: "16 word \<Rightarrow> bool" where
  "isWhiteSpace c =
     (c = 0x9 \<or> c = 0xA \<or> c = 0xB \<or> c = 0xC \<or> c = 0xD \<or> c = 0x20 \<or> c = 0xA0
      \<or> c = 0x1680 \<or> (0x2000 \<le> c \<and> c \<le> 0x200A) \<or> c = 0x2028 \<or> c = 0x2029
      \<or> c = 0x202F \<or> c = 0x205F \<or> c = 0x3000 \<or> c = 0xFEFF)"

definition trimStart :: "jsstring \<Rightarrow> jsstring" where
  "trimStart s = dropWhile isWhiteSpace s"

definition trimEnd :: "jsstring \<Rightarrow> jsstring" where
  "trimEnd s = rev (dropWhile isWhiteSpace (rev s))"

definition trim :: "jsstring \<Rightarrow> jsstring" where
  "trim s = trimEnd (trimStart s)"

subsection \<open>Environment, clock and filesystem\<close>

text \<open>
  \<^verbatim>\<open>process.env\<close>: the two variables the module reads. \<open>None\<close> is an unset variable.
\<close>

record env =
  env_NODE_ENV :: "jsstring option"
  env_SECRET_PATH :: "jsstring option"

text \<open>
  \<^verbatim>\<open>const SECRET_PATH = process.env.SECRET_PATH || "/mnt/secrets-store/my-secret"\<close>:
  an unset or empty variable is falsy.
\<close>

definition SECRET_PATH :: "env \<Rightarrow> jsstring" where
  "SECRET_PATH e =
     (case env_SECRET_PATH e of
        None \<Rightarrow> js ''/mnt/secrets-store/my-secret''
      | Some p \<Rightarrow> if p = [] then js ''/mnt/secrets-store/my-secret'' else p)"

text \<open>The literal \<^verbatim>\<open>'/mnt/secrets-store'\<close> of lines 35 and 61.\<close>

definition watchDir :: jsstring where
  "watchDir = js ''/mnt/secrets-store''"

datatype fs_error = ENOENT | EACCES | EISDIR | EIO | ELOOP | ENOSPC | EMFILE

text \<open>
  What the module can see thrown: an error of an \<^verbatim>\<open>fs\<close> call, or the
  \<^verbatim>\<open>RangeError\<close> of \<^verbatim>\<open>Date.prototype.toISOString\<close>.
\<close>

datatype js_error = FsError fs_error | RangeError

text \<open>
  A \<^verbatim>\<open>Date\<close> is the number of milliseconds it was made from. Beyond 8.64e15 ms on
  either side of the epoch it is an Invalid Date, on which \<^verbatim>\<open>toISOString\<close> throws a
  \<^verbatim>\<open>RangeError\<close>. On the other dates \<^verbatim>\<open>toISOString\<close> is injective, so its result is
  kept as the tagged time value instead of the rendered text.
\<close>

type_synonym date = int

datatype isotime = ISO int

definition toISOString :: "date \<Rightarrow> js_error + isotime" where
  "toISOString d =
     (if - 8640000000000000 \<le> d \<and> d \<le> 8640000000000000 then Inr (ISO d)
      else Inl RangeError)"

text \<open>
  The clock: \<^verbatim>\<open>new Date()\<close> is the current time, never an Invalid Date, so
  \<^verbatim>\<open>new Date().toISOString()\<close> always returns. Every function below takes that
  result as its argument \<open>now\<close>; the few \<^verbatim>\<open>new Date()\<close> of one call all see the
  same reading.
\<close>

record stats =
  mtime :: date

text \<open>
  The filesystem as the module observes it: the result of each \<^verbatim>\<open>fs\<close> call at each path.
  \<^verbatim>\<open>existsSync\<close> never throws; the others return or throw. The observations are
  independent of each other, so every outcome of every call is covered, and the
  modification time of a \<^verbatim>\<open>stat\<close> is any number of milliseconds, in the range of a
  valid \<^verbatim>\<open>Date\<close> or not. One record is the filesystem during one call of a function of
  the module: within it, the same \<^verbatim>\<open>fs\<close> call on the same path gives the same result.
\<close>

record fs =
  readFileSync :: "jsstring \<Rightarrow> fs_error + jsstring"
  statSync :: "jsstring \<Rightarrow> fs_error + stats"
  existsSync :: "jsstring \<Rightarrow> bool"
  realpathSync :: "jsstring \<Rightarrow> fs_error + jsstring"
  watch :: "jsstring \<Rightarrow> fs_error + unit"

subsection \<open>Module state\<close>

text \<open>
  \<^verbatim>\<open>secretCache\<close>. \<open>None\<close> is \<^verbatim>\<open>null\<close> for the first two fields and an absent
  property for \<open>fileModified\<close>, which the initial object literal does not have.
\<close>

record cache =
  value_c :: "jsstring option"
  lastUpdated :: "isotime option"
  fileModified :: "isotime option"
  watcherActive :: bool

datatype log_entry =
    SecretLoaded jsstring
  | ErrorReadingSecret js_error
  | AlreadyActive
  | SkippingInTest
  | DirNotFound
  | SettingUp
  | ChangeDetected jsstring "jsstring option"
  | SecretRotated "jsstring option" jsstring
  | WatcherEnabled
  | SetupFailed js_error

text \<open>
  \<open>watches\<close>: the directories with a listener installed by \<^verbatim>\<open>fs.watch\<close>;
  \<open>timers\<close>: the delays of the callbacks scheduled by \<^verbatim>\<open>setTimeout\<close> and not yet run;
  \<open>console\<close>: the lines written so far, without their time stamps.
\<close>

record state =
  secretCache :: cache
  watches :: "jsstring list"
  timers :: "nat list"
  console :: "log_entry list"

definition initial_cache :: cache where
  "initial_cache =
     \<lparr>value_c = None, lastUpdated = None, fileModified = None, watcherActive = False\<rparr>"

definition initial_state :: state where
  "initial_state = \<lparr>secretCache = initial_cache, watches = [], timers = [], console = []\<rparr>"

definition log :: "log_entry \<Rightarrow> state \<Rightarrow> state" where
  "log l st = st\<lparr>console := console st @ [l]\<rparr>"

text \<open>A computation returns a value and the new state, or throws in the state it reached.\<close>

type_synonym 'a res = "(js_error \<times> state) + ('a \<times> state)"

subsection \<open>readSecretFromDisk and getSecret\<close>

text \<open>
  The \<^verbatim>\<open>try\<close> block of \<^verbatim>\<open>readSecretFromDisk\<close> (lines 21 to 32): read, trim, stat,
  build the new cache object, assign it, log, return the value. The object literal calls
  \<^verbatim>\<open>stats.mtime.toISOString()\<close> (line 27) before the assignment, so its
  \<^verbatim>\<open>RangeError\<close> leaves the cache as it was.
\<close>

definition readSecret_try :: "env \<Rightarrow> fs \<Rightarrow> isotime \<Rightarrow> state \<Rightarrow> jsstring res" where
  "readSecret_try e f now st =
     (case readFileSync f (SECRET_PATH e) of
        Inl err \<Rightarrow> Inl (FsError err, st)
      | Inr content \<Rightarrow>
          (let v = trim content in
           case statSync f (SECRET_PATH e) of
             Inl err \<Rightarrow> Inl (FsError err, st)
           | Inr s \<Rightarrow>
               (case toISOString (mtime s) of
                  Inl err \<Rightarrow> Inl (err, st)
                | Inr m \<Rightarrow>
                    Inr (v, log (SecretLoaded (take 20 v))
                              (st\<lparr>secretCache :=
                                   \<lparr>value_c = Some v,
                                    lastUpdated = Some now,
                                    fileModified = Some m,
                                    watcherActive = watcherActive (secretCache st)\<rparr>\<rparr>)))))"

text \<open>The \<^verbatim>\<open>catch\<close> block (lines 33 to 41).\<close>

definition readSecret_catch :: "env \<Rightarrow> fs \<Rightarrow> js_error \<Rightarrow> state \<Rightarrow> jsstring res" where
  "readSecret_catch e f err st =
     (if env_NODE_ENV e = Some (js ''test'') \<or> \<not> existsSync f watchDir
      then Inr (js ''TEST_SECRET_VALUE'', st)
      else Inr (js ''SECRET_NOT_AVAILABLE'', log (ErrorReadingSecret err) st))"

definition readSecretFromDisk :: "env \<Rightarrow> fs \<Rightarrow> isotime \<Rightarrow> state \<Rightarrow> jsstring res" where
  "readSecretFromDisk e f now st =
     (case readSecret_try e f now st of
        Inr r \<Rightarrow> Inr r
      | Inl (err, st') \<Rightarrow> readSecret_catch e f err st')"

definition getSecret :: "env \<Rightarrow> fs \<Rightarrow> isotime \<Rightarrow> state \<Rightarrow> jsstring res" where
  "getSecret e f now st = readSecretFromDisk e f now st"

subsection \<open>The watcher\<close>

text \<open>
  The listener passed to \<^verbatim>\<open>fs.watch\<close> (lines 70 to 86). The runtime may deliver an event
  without a file name (\<open>None\<close>).
\<close>

definition watchListener :: "jsstring \<Rightarrow> jsstring option \<Rightarrow> state \<Rightarrow> state" where
  "watchListener eventType filename st =
     (if filename = Some (js ''my-secret'') \<or> filename = Some (js ''..data'')
      then (log (ChangeDetected eventType filename) st)\<lparr>timers := timers st @ [100]\<rparr>
      else st)"

text \<open>The callback passed to \<^verbatim>\<open>setTimeout\<close> (lines 75 to 84).\<close>

definition reloadCallback :: "env \<Rightarrow> fs \<Rightarrow> isotime \<Rightarrow> state \<Rightarrow> unit res" where
  "reloadCallback e f now st =
     (let oldValue = value_c (secretCache st) in
      case readSecretFromDisk e f now st of
        Inl x \<Rightarrow> Inl x
      | Inr (newValue, st') \<Rightarrow>
          if oldValue \<noteq> Some newValue
          then Inr ((), log (SecretRotated oldValue newValue) st')
          else Inr ((), st'))"

definition setupFileWatcher :: "env \<Rightarrow> fs \<Rightarrow> state \<Rightarrow> unit res" where
  "setupFileWatcher e f st =
     (if watcherActive (secretCache st) then Inr ((), log AlreadyActive st)
      else if env_NODE_ENV e = Some (js ''test'') then Inr ((), log SkippingInTest st)
      else if \<not> existsSync f watchDir then Inr ((), log DirNotFound st)
      else
        (let st1 = log SettingUp st in
         case watch f watchDir of
           Inl err \<Rightarrow> Inr ((), log (SetupFailed (FsError err)) st1)
         | Inr _ \<Rightarrow>
             (let st2 = st1\<lparr>watches := watches st1 @ [watchDir]\<rparr>;
                  st3 = st2\<lparr>secretCache := (secretCache st2)\<lparr>watcherActive := True\<rparr>\<rparr>
              in Inr ((), log WatcherEnabled st3))))"

subsection \<open>Endpoints\<close>

datatype body =
    ServiceInfo (fileWatching: bool)
  | PlainText jsstring
  | ConfigBody (mySecret: jsstring) (timestamp: isotime)
      (lastUpdated_r: "isotime option") (fileWatcherActive: bool)
  | InfoReduced (value_r: jsstring) (path: jsstring) (exists_r: bool) (mode: jsstring)
  | InfoFull (value_r: jsstring) (path: jsstring) (realPath: jsstring) (isSymlink: bool)
      (fileModified_r: isotime) (cacheLastUpdated: "isotime option") (watcherActive_r: bool)
  | ErrorBody (error: js_error)
  | ReloadBody (message: jsstring) (changed: bool) (oldValue: "jsstring option")
      (newValue: jsstring) (timestamp: isotime)

record response =
  status :: nat
  body :: body

definition get_root :: "state \<Rightarrow> response res" where
  "get_root st =
     Inr (\<lparr>status = 200, body = ServiceInfo (watcherActive (secretCache st))\<rparr>, st)"

definition get_health :: "state \<Rightarrow> response res" where
  "get_health st = Inr (\<lparr>status = 200, body = PlainText (js ''OK'')\<rparr>, st)"

text \<open>
  \<^verbatim>\<open>/config\<close>: the properties of the object literal are evaluated in order, so
  \<^verbatim>\<open>getSecret()\<close> runs before \<^verbatim>\<open>secretCache\<close> is read.
\<close>

definition get_config :: "env \<Rightarrow> fs \<Rightarrow> isotime \<Rightarrow> state \<Rightarrow> response res" where
  "get_config e f now st =
     (case getSecret e f now st of
        Inl x \<Rightarrow> Inl x
      | Inr (v, st') \<Rightarrow>
          Inr (\<lparr>status = 200,
                body = ConfigBody v now (lastUpdated (secretCache st'))
                         (watcherActive (secretCache st'))\<rparr>, st'))"

text \<open>
  The \<^verbatim>\<open>try\<close> block of \<^verbatim>\<open>/secret-info\<close> (lines 133 to 153). In the full record
  \<^verbatim>\<open>getSecret()\<close> runs first and \<^verbatim>\<open>stats.mtime.toISOString()\<close> (line 150) after it,
  so its \<^verbatim>\<open>RangeError\<close> is thrown in the state \<^verbatim>\<open>getSecret\<close> left.
\<close>

definition secret_info_try :: "env \<Rightarrow> fs \<Rightarrow> isotime \<Rightarrow> state \<Rightarrow> response res" where
  "secret_info_try e f now st =
     (if \<not> existsSync f (SECRET_PATH e)
      then
        (case getSecret e f now st of
           Inl x \<Rightarrow> Inl x
         | Inr (v, st') \<Rightarrow>
             Inr (\<lparr>status = 200,
                   body = InfoReduced v (SECRET_PATH e) False (js ''fallback'')\<rparr>, st'))
      else
        (case statSync f (SECRET_PATH e) of
           Inl err \<Rightarrow> Inl (FsError err, st)
         | Inr s \<Rightarrow>
             (case realpathSync f (SECRET_PATH e) of
                Inl err \<Rightarrow> Inl (FsError err, st)
              | Inr rp \<Rightarrow>
                  (case getSecret e f now st of
                     Inl x \<Rightarrow> Inl x
                   | Inr (v, st') \<Rightarrow>
                       (case toISOString (mtime s) of
                          Inl err \<Rightarrow> Inl (err, st')
                        | Inr m \<Rightarrow>
                            Inr (\<lparr>status = 200,
                                  body = InfoFull v (SECRET_PATH e) rp (rp \<noteq> SECRET_PATH e)
                                           m (lastUpdated (secretCache st'))
                                           (watcherActive (secretCache st'))\<rparr>, st'))))))"

definition get_secret_info :: "env \<Rightarrow> fs \<Rightarrow> isotime \<Rightarrow> state \<Rightarrow> response res" where
  "get_secret_info e f now st =
     (case secret_info_try e f now st of
        Inr r \<Rightarrow> Inr r
      | Inl (err, st') \<Rightarrow> Inr (\<lparr>status = 500, body = ErrorBody err\<rparr>, st'))"

definition get_trigger_reload :: "env \<Rightarrow> fs \<Rightarrow> isotime \<Rightarrow> state \<Rightarrow> response res" where
  "get_trigger_reload e f now st =
     (let old = value_c (secretCache st) in
      case readSecretFromDisk e f now st of
        Inl x \<Rightarrow> Inl x
      | Inr (new, st') \<Rightarrow>
          Inr (\<lparr>status = 200,
                body = ReloadBody (js ''Manual reload triggered'') (old \<noteq> Some new) old new
                         now\<rparr>, st'))"

subsection \<open>Runs of the process\<close>

text \<open>
  What can happen to the process: the two calls of the start-up callback (lines 195 and 198),
  a request to one of the five routes, a filesystem event reported by the runtime, and a
  pending timer running. Each comes with the filesystem and the clock of its moment.
\<close>

datatype route = Root | Health | Config | SecretInfo | TriggerReload

datatype event =
    InitialLoad
  | SetupWatcher
  | Request route
  | FsEvent jsstring "jsstring option"
  | TimerFires

text \<open>The state a computation leaves behind, whether it returned or threw.\<close>

definition after :: "'a res \<Rightarrow> state" where
  "after r = (case r of Inl (_, st) \<Rightarrow> st | Inr (_, st) \<Rightarrow> st)"

definition handle :: "env \<Rightarrow> fs \<Rightarrow> isotime \<Rightarrow> route \<Rightarrow> state \<Rightarrow> response res" where
  "handle e f now r st =
     (case r of
        Root \<Rightarrow> get_root st
      | Health \<Rightarrow> get_health st
      | Config \<Rightarrow> get_config e f now st
      | SecretInfo \<Rightarrow> get_secret_info e f now st
      | TriggerReload \<Rightarrow> get_trigger_reload e f now st)"

text \<open>The runtime calls every installed listener once for an event in its directory.\<close>

definition deliver :: "jsstring \<Rightarrow> jsstring option \<Rightarrow> state \<Rightarrow> state" where
  "deliver eventType filename st =
     fold (\<lambda>_. watchListener eventType filename) (watches st) st"

text \<open>The oldest pending timer runs its callback; without a pending timer nothing runs.\<close>

definition fire :: "env \<Rightarrow> fs \<Rightarrow> isotime \<Rightarrow> state \<Rightarrow> state" where
  "fire e f now st =
     (case timers st of
        [] \<Rightarrow> st
      | _ # ts \<Rightarrow> after (reloadCallback e f now (st\<lparr>timers := ts\<rparr>)))"

fun step :: "env \<Rightarrow> fs \<times> isotime \<times> event \<Rightarrow> state \<Rightarrow> state" where
  "step e (f, now, InitialLoad) st = after (readSecretFromDisk e f now st)"
| "step e (f, now, SetupWatcher) st = after (setupFileWatcher e f st)"
| "step e (f, now, Request r) st = after (handle e f now r st)"
| "step e (f, now, FsEvent t n) st = deliver t n st"
| "step e (f, now, TimerFires) st = fire e f now st"

text \<open>The states a run goes through, the starting state first.\<close>

fun run :: "env \<Rightarrow> (fs \<times> isotime \<times> event) list \<Rightarrow> state \<Rightarrow> state list" where
  "run e [] st = [st]"
| "run e (x # xs) st = st # run e xs (step e x st)"

text \<open>The number of changes from false to true along a sequence of flag values.\<close>

fun rises :: "bool list \<Rightarrow> nat" where
  "rises (a # b # bs) = (if \<not> a \<and> b then 1 else 0) + rises (b # bs)"
| "rises _ = 0"

subsection \<open>Notions used to state the properties\<close>

text \<open>
  The \<^verbatim>\<open>stat\<close> of the secret path returns and its modification time is a valid date.
\<close>

definition mtime_ok :: "env \<Rightarrow> fs \<Rightarrow> bool" where
  "mtime_ok e f =
     (case statSync f (SECRET_PATH e) of
        Inl _ \<Rightarrow> False
      | Inr s \<Rightarrow> \<not> isl (toISOString (mtime s)))"

text \<open>
  The secret can be loaded: the three calls of the \<^verbatim>\<open>try\<close> block of
  \<^verbatim>\<open>readSecretFromDisk\<close> that can throw all return, that is, the file is read, its
  \<^verbatim>\<open>stat\<close> returns, and the modification time is a valid date.
\<close>

definition readable :: "env \<Rightarrow> fs \<Rightarrow> bool" where
  "readable e f = (\<not> isl (readFileSync f (SECRET_PATH e)) \<and> mtime_ok e f)"

text \<open>The events whose handling can call \<^verbatim>\<open>readSecretFromDisk\<close>.\<close>

fun may_read :: "event \<Rightarrow> bool" where
  "may_read InitialLoad = True"
| "may_read SetupWatcher = False"
| "may_read (Request Root) = False"
| "may_read (Request Health) = False"
| "may_read (Request _) = True"
| "may_read (FsEvent _ _) = False"
| "may_read TimerFires = True"

text \<open>
  The base filename of a path, in the words of the specification: what follows the last
  slash. The source never computes it.
\<close>

definition spec_basename :: "jsstring \<Rightarrow> jsstring" where
  "spec_basename p = rev (takeWhile (\<lambda>c. c \<noteq> 0x2F) (rev p))"

subsection \<open>Example inputs\<close>

definition env_default :: env where
  "env_default = \<lparr>env_NODE_ENV = None, env_SECRET_PATH = None\<rparr>"

definition env_override :: env where
  "env_override =
     \<lparr>env_NODE_ENV = None, env_SECRET_PATH = Some (js ''/mnt/secrets-store/db-password'')\<rparr>"

definition env_elsewhere :: env where
  "env_elsewhere = \<lparr>env_NODE_ENV = None, env_SECRET_PATH = Some (js ''/tmp/secret'')\<rparr>"

text \<open>Nothing is mounted: no path exists.\<close>

definition fs_empty :: fs where
  "fs_empty =
     \<lparr>readFileSync = (\<lambda>_. Inl ENOENT), statSync = (\<lambda>_. Inl ENOENT),
      existsSync = (\<lambda>_. False), realpathSync = (\<lambda>_. Inl ENOENT),
      watch = (\<lambda>_. Inl ENOENT)\<rparr>"

text \<open>The secret is mounted with the content \<^verbatim>\<open>"abc123\n"\<close>, through the indirection entry.\<close>

definition fs_mounted :: fs where
  "fs_mounted =
     \<lparr>readFileSync = (\<lambda>p. if p = js ''/mnt/secrets-store/my-secret''
                             then Inr (js ''abc123'' @ [0xA]) else Inl ENOENT),
      statSync = (\<lambda>p. if p = js ''/mnt/secrets-store/my-secret'' \<or> p = js ''/mnt/secrets-store''
                         then Inr \<lparr>mtime = 1700000000000\<rparr> else Inl ENOENT),
      existsSync = (\<lambda>p. p = js ''/mnt/secrets-store/my-secret'' \<or> p = js ''/mnt/secrets-store''),
      realpathSync = (\<lambda>p. if p = js ''/mnt/secrets-store/my-secret''
                             then Inr (js ''/mnt/secrets-store/..data/my-secret'')
                             else if p = js ''/mnt/secrets-store'' then Inr p else Inl ENOENT),
      watch = (\<lambda>p. if p = js ''/mnt/secrets-store'' then Inr () else Inl ENOENT)\<rparr>"

text \<open>The directory is mounted but holds no secret file.\<close>

definition fs_dir_only :: fs where
  "fs_dir_only =
     \<lparr>readFileSync = (\<lambda>p. if p = js ''/mnt/secrets-store'' then Inl EISDIR else Inl ENOENT),
      statSync = (\<lambda>p. if p = js ''/mnt/secrets-store''
                         then Inr \<lparr>mtime = 1700000000000\<rparr> else Inl ENOENT),
      existsSync = (\<lambda>p. p = js ''/mnt/secrets-store''),
      realpathSync = (\<lambda>p. if p = js ''/mnt/secrets-store'' then Inr p else Inl ENOENT),
      watch = (\<lambda>p. if p = js ''/mnt/secrets-store'' then Inr () else Inl ENOENT)\<rparr>"

text \<open>The secret file is there, but the \<^verbatim>\<open>stat\<close> call on it fails with an I/O error.\<close>

definition fs_stat_error :: fs where
  "fs_stat_error =
     \<lparr>readFileSync = (\<lambda>p. if p = js ''/mnt/secrets-store/my-secret''
                             then Inr (js ''abc123'' @ [0xA]) else Inl ENOENT),
      statSync = (\<lambda>p. if p = js ''/mnt/secrets-store/my-secret'' then Inl EIO
                         else if p = js ''/mnt/secrets-store''
                         then Inr \<lparr>mtime = 1700000000000\<rparr> else Inl ENOENT),
      existsSync = (\<lambda>p. p = js ''/mnt/secrets-store/my-secret'' \<or> p = js ''/mnt/secrets-store''),
      realpathSync = (\<lambda>p. if p = js ''/mnt/secrets-store/my-secret'' \<or> p = js ''/mnt/secrets-store''
                             then Inr p else Inl ENOENT),
      watch = (\<lambda>p. if p = js ''/mnt/secrets-store'' then Inr () else Inl ENOENT)\<rparr>"

text \<open>
  The secret is mounted, with a modification time of 9e15 ms, beyond the range of a valid
  \<^verbatim>\<open>Date\<close>.
\<close>

definition fs_bad_mtime :: fs where
  "fs_bad_mtime =
     \<lparr>readFileSync = (\<lambda>p. if p = js ''/mnt/secrets-store/my-secret''
                             then Inr (js ''abc123'' @ [0xA]) else Inl ENOENT),
      statSync = (\<lambda>p. if p = js ''/mnt/secrets-store/my-secret''
                         then Inr \<lparr>mtime = 9000000000000000\<rparr>
                         else if p = js ''/mnt/secrets-store''
                         then Inr \<lparr>mtime = 1700000000000\<rparr> else Inl ENOENT),
      existsSync = (\<lambda>p. p = js ''/mnt/secrets-store/my-secret'' \<or> p = js ''/mnt/secrets-store''),
      realpathSync = (\<lambda>p. if p = js ''/mnt/secrets-store/my-secret'' \<or> p = js ''/mnt/secrets-store''
                             then Inr p else Inl ENOENT),
      watch = (\<lambda>p. if p = js ''/mnt/secrets-store'' then Inr () else Inl ENOENT)\<rparr>"

text \<open>No \<^verbatim>\<open>/mnt/secrets-store\<close>; a secret file at \<^verbatim>\<open>/tmp/secret\<close>.\<close>

definition fs_tmp :: fs where
  "fs_tmp =
     \<lparr>readFileSync = (\<lambda>p. if p = js ''/tmp/secret'' then Inr (js ''hunter2'') else Inl ENOENT),
      statSync = (\<lambda>p. if p = js ''/tmp/secret'' \<or> p = js ''/tmp''
                         then Inr \<lparr>mtime = 1700000000000\<rparr> else Inl ENOENT),
      existsSync = (\<lambda>p. p = js ''/tmp/secret'' \<or> p = js ''/tmp''),
      realpathSync = (\<lambda>p. if p = js ''/tmp/secret'' \<or> p = js ''/tmp'' then Inr p else Inl ENOENT),
      watch = (\<lambda>p. if p = js ''/tmp'' then Inr () else Inl ENOENT)\<rparr>"

subsection \<open>Invariant and example runs\<close>

text \<open>The flag and the installed watches go together.\<close>

definition watch_inv :: "state \<Rightarrow> bool" where
  "watch_inv s = (if watcherActive (secretCache s) then length (watches s) = 1 else watches s = [])"

text \<open>The state after a first successful call of \<^verbatim>\<open>setupFileWatcher\<close> at start-up.\<close>

definition state_active :: state where
  "state_active =
     \<lparr>secretCache = \<lparr>value_c = None, lastUpdated = None, fileModified = None,
                     watcherActive = True\<rparr>,
      watches = [watchDir], timers = [], console = [SettingUp, WatcherEnabled]\<rparr>"

definition setup_twice :: "(fs \<times> isotime \<times> event) list" where
  "setup_twice = [(fs_mounted, ISO 1, SetupWatcher), (fs_mounted, ISO 2, SetupWatcher)]"

text \<open>A run in which no read can succeed, over four different filesystems.\<close>

definition failing_run :: "(fs \<times> isotime \<times> event) list" where
  "failing_run =
     [(fs_empty, ISO 1, InitialLoad), (fs_empty, ISO 2, SetupWatcher),
      (fs_empty, ISO 3, Request Config), (fs_dir_only, ISO 4, Request SecretInfo),
      (fs_dir_only, ISO 5, Request TriggerReload), (fs_stat_error, ISO 6, Request Config),
      (fs_bad_mtime, ISO 7, Request SecretInfo), (fs_bad_mtime, ISO 8, Request TriggerReload)]"

section \<open>Properties\<close>

subsection \<open>Auxiliary facts\<close>

lemma readSecret_readable:
  assumes "readFileSync f (SECRET_PATH e) = Inr c" and "statSync f (SECRET_PATH e) = Inr s"
    and "toISOString (mtime s) = Inr m"
  shows "readSecretFromDisk e f now st =
           Inr (trim c, log (SecretLoaded (take 20 (trim c)))
                  (st\<lparr>secretCache :=
                       \<lparr>value_c = Some (trim c),
                        lastUpdated = Some now,
                        fileModified = Some m,
                        watcherActive = watcherActive (secretCache st)\<rparr>\<rparr>))"
  using assms by (simp add: readSecretFromDisk_def readSecret_try_def Let_def)

lemma readSecret_unreadable:
  assumes "\<not> readable e f"
  shows "\<exists>st'. readSecretFromDisk e f now st =
             Inr (if env_NODE_ENV e = Some (js ''test'') \<or> \<not> existsSync f watchDir
                  then js ''TEST_SECRET_VALUE'' else js ''SECRET_NOT_AVAILABLE'', st')
           \<and> secretCache st' = secretCache st \<and> watches st' = watches st
           \<and> timers st' = timers st"
  using assms
  by (auto simp: readable_def mtime_ok_def readSecretFromDisk_def readSecret_try_def
      readSecret_catch_def log_def Let_def split: sum.splits)

lemma mtime_ok_cases:
  "mtime_ok e f \<longleftrightarrow>
     (\<exists>s m. statSync f (SECRET_PATH e) = Inr s \<and> toISOString (mtime s) = Inr m)"
proof (cases "statSync f (SECRET_PATH e)")
  case (Inl err)
  then show ?thesis by (simp add: mtime_ok_def)
next
  case (Inr s)
  then show ?thesis by (cases "toISOString (mtime s)") (simp_all add: mtime_ok_def)
qed

lemma readable_cases:
  "readable e f \<longleftrightarrow>
     (\<exists>c s m. readFileSync f (SECRET_PATH e) = Inr c \<and> statSync f (SECRET_PATH e) = Inr s
        \<and> toISOString (mtime s) = Inr m)"
  by (cases "readFileSync f (SECRET_PATH e)") (auto simp: readable_def mtime_ok_cases)

lemmas example_defs = env_default_def
  fs_empty_def fs_mounted_def fs_dir_only_def fs_stat_error_def fs_bad_mtime_def
  SECRET_PATH_def watchDir_def js_def readable_def mtime_ok_def toISOString_def
  initial_state_def initial_cache_def

lemma readSecret_total:
  "\<exists>v st'. readSecretFromDisk e f now st = Inr (v, st')
     \<and> (\<not> readable e f \<longrightarrow> v = js ''TEST_SECRET_VALUE'' \<or> v = js ''SECRET_NOT_AVAILABLE'')"
proof (cases "readable e f")
  case True
  then obtain c s m where rd: "readFileSync f (SECRET_PATH e) = Inr c"
      "statSync f (SECRET_PATH e) = Inr s" "toISOString (mtime s) = Inr m"
    by (auto simp: readable_cases)
  show ?thesis using True by (simp add: readSecret_readable [OF rd])
next
  case False
  from readSecret_unreadable [OF False, of now st] show ?thesis by auto
qed

lemma read_effect:
  "\<exists>v st'. readSecretFromDisk e f now st = Inr (v, st')
     \<and> watcherActive (secretCache st') = watcherActive (secretCache st)
     \<and> watches st' = watches st \<and> timers st' = timers st
     \<and> (\<not> readable e f \<longrightarrow> secretCache st' = secretCache st)"
proof (cases "readable e f")
  case True
  then obtain c s m where rd: "readFileSync f (SECRET_PATH e) = Inr c"
      "statSync f (SECRET_PATH e) = Inr s" "toISOString (mtime s) = Inr m"
    by (auto simp: readable_cases)
  show ?thesis using True by (simp add: readSecret_readable [OF rd] log_def)
next
  case False
  from readSecret_unreadable [OF False, of now st] show ?thesis by auto
qed

lemma after_read:
  "watcherActive (secretCache (after (readSecretFromDisk e f now st)))
     = watcherActive (secretCache st)
   \<and> watches (after (readSecretFromDisk e f now st)) = watches st
   \<and> timers (after (readSecretFromDisk e f now st)) = timers st
   \<and> (\<not> readable e f \<longrightarrow>
        secretCache (after (readSecretFromDisk e f now st)) = secretCache st)"
  using read_effect [of e f now st] by (auto simp: after_def)

lemma after_handle:
  "watcherActive (secretCache (after (handle e f now r st))) = watcherActive (secretCache st)
   \<and> watches (after (handle e f now r st)) = watches st
   \<and> ((may_read (Request r) \<longrightarrow> \<not> readable e f) \<longrightarrow>
        secretCache (after (handle e f now r st)) = secretCache st)"
proof (cases r)
  case Root
  then show ?thesis by (simp add: handle_def get_root_def after_def)
next
  case Health
  then show ?thesis by (simp add: handle_def get_health_def after_def)
next
  case Config
  then show ?thesis
    using read_effect [of e f now st]
    by (auto simp: handle_def get_config_def getSecret_def after_def)
next
  case SecretInfo
  then show ?thesis
    using read_effect [of e f now st]
    by (auto simp: handle_def get_secret_info_def secret_info_try_def getSecret_def after_def
        split: sum.splits)
next
  case TriggerReload
  then show ?thesis
    using read_effect [of e f now st]
    by (auto simp: handle_def get_trigger_reload_def Let_def after_def)
qed

lemma fold_listener:
  "secretCache (fold (\<lambda>_. watchListener t n) ws st) = secretCache st
   \<and> watches (fold (\<lambda>_. watchListener t n) ws st) = watches st"
  by (induction ws arbitrary: st) (simp_all add: watchListener_def log_def)

lemma deliver_frame:
  "secretCache (deliver t n st) = secretCache st \<and> watches (deliver t n st) = watches st"
  by (simp add: deliver_def fold_listener)

lemma after_reload:
  "watcherActive (secretCache (after (reloadCallback e f now st))) = watcherActive (secretCache st)
   \<and> watches (after (reloadCallback e f now st)) = watches st
   \<and> (\<not> readable e f \<longrightarrow> secretCache (after (reloadCallback e f now st)) = secretCache st)"
proof -
  obtain v st' where rd: "readSecretFromDisk e f now st = Inr (v, st')"
      "watcherActive (secretCache st') = watcherActive (secretCache st)"
      "watches st' = watches st" "\<not> readable e f \<longrightarrow> secretCache st' = secretCache st"
    using read_effect [of e f now st] by blast
  show ?thesis
    using rd
    by (cases "value_c (secretCache st) = Some v")
      (simp_all add: reloadCallback_def Let_def after_def log_def)
qed

lemma fire_frame:
  "watcherActive (secretCache (fire e f now st)) = watcherActive (secretCache st)
   \<and> watches (fire e f now st) = watches st
   \<and> (\<not> readable e f \<longrightarrow> secretCache (fire e f now st) = secretCache st)"
proof (cases "timers st")
  case Nil
  then show ?thesis by (simp add: fire_def)
next
  case (Cons t ts)
  then show ?thesis
    using after_reload [of e f now "st\<lparr>timers := ts\<rparr>"] by (simp add: fire_def)
qed

lemma setup_active:
  assumes "watcherActive (secretCache st)"
  shows "setupFileWatcher e f st = Inr ((), log AlreadyActive st)"
  using assms by (simp add: setupFileWatcher_def)

lemma setup_frame:
  "value_c (secretCache (after (setupFileWatcher e f st))) = value_c (secretCache st)
   \<and> lastUpdated (secretCache (after (setupFileWatcher e f st))) = lastUpdated (secretCache st)
   \<and> (watcherActive (secretCache st) \<longrightarrow>
        watcherActive (secretCache (after (setupFileWatcher e f st)))
        \<and> watches (after (setupFileWatcher e f st)) = watches st)
   \<and> (\<not> watcherActive (secretCache st) \<longrightarrow>
        (if watcherActive (secretCache (after (setupFileWatcher e f st)))
         then watches (after (setupFileWatcher e f st)) = watches st @ [watchDir]
         else watches (after (setupFileWatcher e f st)) = watches st))"
  by (auto simp: setupFileWatcher_def after_def log_def Let_def split: sum.splits)

lemma step_active:
  assumes "watcherActive (secretCache st)"
  shows "watcherActive (secretCache (step e x st)) \<and> watches (step e x st) = watches st"
proof -
  obtain f now ev where x: "x = (f, now, ev)" by (cases x)
  show ?thesis
  proof (cases ev)
    case InitialLoad
    with x assms show ?thesis by (simp add: after_read)
  next
    case SetupWatcher
    with x assms show ?thesis using setup_frame [of e f st] by simp
  next
    case (Request r)
    with x assms show ?thesis by (simp add: after_handle)
  next
    case (FsEvent t n)
    with x assms show ?thesis by (simp add: deliver_frame)
  next
    case TimerFires
    with x assms show ?thesis by (simp add: fire_frame)
  qed
qed

lemma step_watch_inv:
  assumes "watch_inv st"
  shows "watch_inv (step e x st)"
proof -
  obtain f now ev where x: "x = (f, now, ev)" by (cases x)
  show ?thesis
  proof (cases ev)
    case InitialLoad
    with x assms show ?thesis by (simp add: watch_inv_def after_read)
  next
    case SetupWatcher
    with x assms show ?thesis
      using setup_frame [of e f st] by (auto simp: watch_inv_def split: if_splits)
  next
    case (Request r)
    with x assms show ?thesis by (simp add: watch_inv_def after_handle)
  next
    case (FsEvent t n)
    with x assms show ?thesis by (simp add: watch_inv_def deliver_frame)
  next
    case TimerFires
    with x assms show ?thesis by (simp add: watch_inv_def fire_frame)
  qed
qed

lemma step_unreadable:
  assumes "may_read ev \<longrightarrow> \<not> readable e f"
  shows "value_c (secretCache (step e (f, now, ev) st)) = value_c (secretCache st)
         \<and> lastUpdated (secretCache (step e (f, now, ev) st)) = lastUpdated (secretCache st)"
proof (cases ev)
  case InitialLoad
  with assms show ?thesis by (simp add: after_read)
next
  case SetupWatcher
  then show ?thesis using setup_frame [of e f st] by simp
next
  case (Request r)
  with assms show ?thesis using after_handle [of e f now r st] by simp
next
  case (FsEvent t n)
  then show ?thesis by (simp add: deliver_frame)
next
  case TimerFires
  with assms show ?thesis by (simp add: fire_frame)
qed

lemma run_all:
  assumes "P st" and "\<And>x s. x \<in> set tr \<Longrightarrow> P s \<Longrightarrow> P (step e x s)"
  shows "\<forall>s \<in> set (run e tr st). P s"
  using assms
proof (induction tr arbitrary: st)
  case Nil
  then show ?case by simp
next
  case (Cons x xs)
  have "P (step e x st)" using Cons.prems by simp
  then have "\<forall>s \<in> set (run e xs (step e x st)). P s"
    using Cons.IH Cons.prems(2) by simp
  with Cons.prems(1) show ?case by simp
qed

lemma run_head: "\<exists>rest. run e tr st = st # rest"
  by (cases tr) simp_all

lemma rises_active:
  assumes "watcherActive (secretCache st)"
  shows "rises (map (\<lambda>s. watcherActive (secretCache s)) (run e tr st)) = 0"
  using assms
proof (induction tr arbitrary: st)
  case Nil
  then show ?case by simp
next
  case (Cons x xs)
  have a: "watcherActive (secretCache (step e x st))"
    using step_active [OF Cons.prems] by simp
  obtain rest where r: "run e xs (step e x st) = step e x st # rest"
    using run_head by blast
  from Cons.IH [OF a] r Cons.prems show ?case by simp
qed

lemma rises_run:
  "rises (map (\<lambda>s. watcherActive (secretCache s)) (run e tr st)) \<le> 1"
proof (induction tr arbitrary: st)
  case Nil
  show ?case by simp
next
  case (Cons x xs)
  obtain rest where r: "run e xs (step e x st) = step e x st # rest"
    using run_head by blast
  show ?case
  proof (cases "watcherActive (secretCache (step e x st))")
    case True
    from rises_active [OF True, of e xs] r show ?thesis by simp
  next
    case False
    with Cons.IH [of "step e x st"] r show ?thesis by simp
  qed
qed

lemma setup_twice_run:
  "map (\<lambda>s. (watcherActive (secretCache s), watches s)) (run env_default setup_twice initial_state)
     = [(False, []), (True, [watchDir]), (True, [watchDir])]"
  by (simp add: setup_twice_def setupFileWatcher_def after_def log_def Let_def example_defs)

subsection \<open>Reading the secret\<close>

text \<open>
  C1, as the code has it. Two calls of \<^verbatim>\<open>readSecretFromDisk\<close> on an unchanged filesystem
  return the same string and leave the same cached value and the same \<open>fileModified\<close>
  behind, whether the secret can be loaded or not. A \<^verbatim>\<open>/trigger-reload\<close> after such a
  call answers with status 200, with \<open>oldValue\<close> the cached value and \<open>newValue\<close> the
  string the read returns; it reports \<open>changed\<close> exactly when the load fails and the cache
  does not hold the returned placeholder. So whenever the load succeeds, that is, the file is
  read, its \<^verbatim>\<open>stat\<close> returns and its modification time is a valid date, it reports
  \<open>changed = false\<close> with \<open>oldValue\<close> equal to \<open>newValue\<close>.
\<close>

theorem idempotent_reload:
  "\<exists>v st1 st2 r st3.
     readSecretFromDisk e f now1 st = Inr (v, st1)
     \<and> readSecretFromDisk e f now2 st1 = Inr (v, st2)
     \<and> value_c (secretCache st2) = value_c (secretCache st1)
     \<and> fileModified (secretCache st2) = fileModified (secretCache st1)
     \<and> get_trigger_reload e f now3 st1 = Inr (r, st3)
     \<and> status r = 200
     \<and> oldValue (body r) = value_c (secretCache st1)
     \<and> newValue (body r) = v
     \<and> (changed (body r) \<longleftrightarrow> \<not> readable e f \<and> value_c (secretCache st) \<noteq> Some v)
     \<and> (readable e f \<longrightarrow> \<not> changed (body r) \<and> oldValue (body r) = Some (newValue (body r)))"
proof (cases "readable e f")
  case True
  then obtain c s m where rd: "readFileSync f (SECRET_PATH e) = Inr c"
      "statSync f (SECRET_PATH e) = Inr s" "toISOString (mtime s) = Inr m"
    by (auto simp: readable_cases)
  show ?thesis
    using True by (simp add: readSecret_readable [OF rd] get_trigger_reload_def log_def Let_def)
next
  case False
  obtain st1 where 1: "readSecretFromDisk e f now1 st =
             Inr (if env_NODE_ENV e = Some (js ''test'') \<or> \<not> existsSync f watchDir
                  then js ''TEST_SECRET_VALUE'' else js ''SECRET_NOT_AVAILABLE'', st1)"
      "secretCache st1 = secretCache st"
    using readSecret_unreadable [OF False, of now1 st] by blast
  obtain st2 where 2: "readSecretFromDisk e f now2 st1 =
             Inr (if env_NODE_ENV e = Some (js ''test'') \<or> \<not> existsSync f watchDir
                  then js ''TEST_SECRET_VALUE'' else js ''SECRET_NOT_AVAILABLE'', st2)"
      "secretCache st2 = secretCache st1"
    using readSecret_unreadable [OF False, of now2 st1] by blast
  obtain st3 where 3: "readSecretFromDisk e f now3 st1 =
             Inr (if env_NODE_ENV e = Some (js ''test'') \<or> \<not> existsSync f watchDir
                  then js ''TEST_SECRET_VALUE'' else js ''SECRET_NOT_AVAILABLE'', st3)"
    using readSecret_unreadable [OF False, of now3 st1] by blast
  show ?thesis
    using False 1 2 3 by (simp add: get_trigger_reload_def Let_def)
qed

theorem idempotent_reload_witness:
  "readable env_default fs_mounted \<and>
   (\<exists>v st1 st2 r st3.
     readSecretFromDisk env_default fs_mounted (ISO 1) initial_state = Inr (v, st1)
     \<and> readSecretFromDisk env_default fs_mounted (ISO 2) st1 = Inr (v, st2)
     \<and> fileModified (secretCache st2) = fileModified (secretCache st1)
     \<and> get_trigger_reload env_default fs_mounted (ISO 3) st1 = Inr (r, st3)
     \<and> \<not> changed (body r) \<and> oldValue (body r) = Some (newValue (body r)))"
proof -
  have r: "readable env_default fs_mounted"
    by (simp add: example_defs)
  from idempotent_reload [of env_default fs_mounted "ISO 1" initial_state "ISO 2" "ISO 3"] r
  show ?thesis by blast
qed

text \<open>
  C1 as stated fails where the load fails: with nothing mounted the read returns the
  placeholder and stores nothing, so a following \<^verbatim>\<open>/trigger-reload\<close> compares the
  \<^verbatim>\<open>null\<close> of the cache with the placeholder and reports \<open>changed = true\<close>.
\<close>

theorem trigger_reload_unreadable_counterexample:
  "readSecretFromDisk env_default fs_empty (ISO 1) initial_state
     = Inr (js ''TEST_SECRET_VALUE'', initial_state)
   \<and> get_trigger_reload env_default fs_empty (ISO 2) initial_state
     = Inr (\<lparr>status = 200,
              body = ReloadBody (js ''Manual reload triggered'') True None
                       (js ''TEST_SECRET_VALUE'') (ISO 2)\<rparr>, initial_state)"
  by (simp add: get_trigger_reload_def readSecretFromDisk_def readSecret_try_def
      readSecret_catch_def example_defs)

text \<open>
  C2. A call of \<^verbatim>\<open>readSecretFromDisk\<close> has two outcomes, and no third. When the file is
  read, its \<^verbatim>\<open>stat\<close> returns and the modification time is a valid date, the call returns
  the trimmed content and the cache is the new object: value, \<open>lastUpdated\<close> and
  \<open>fileModified\<close> replaced together. When one of the three throws, the cache is what it was
  and the call returns the placeholder \<^verbatim>\<open>TEST_SECRET_VALUE\<close> (test mode, or no
  \<^verbatim>\<open>/mnt/secrets-store\<close>) or the sentinel \<^verbatim>\<open>SECRET_NOT_AVAILABLE\<close>.
\<close>

theorem read_all_or_nothing:
  "(\<forall>c s m. readFileSync f (SECRET_PATH e) = Inr c \<and> statSync f (SECRET_PATH e) = Inr s
        \<and> toISOString (mtime s) = Inr m \<longrightarrow>
      (\<exists>st'. readSecretFromDisk e f now st = Inr (trim c, st')
         \<and> secretCache st' =
             \<lparr>value_c = Some (trim c), lastUpdated = Some now, fileModified = Some m,
              watcherActive = watcherActive (secretCache st)\<rparr>))
   \<and> (\<not> (\<exists>c s m. readFileSync f (SECRET_PATH e) = Inr c \<and> statSync f (SECRET_PATH e) = Inr s
            \<and> toISOString (mtime s) = Inr m) \<longrightarrow>
      (\<exists>v st'. readSecretFromDisk e f now st = Inr (v, st')
         \<and> secretCache st' = secretCache st
         \<and> (v = js ''TEST_SECRET_VALUE'' \<or> v = js ''SECRET_NOT_AVAILABLE'')
         \<and> (v = js ''TEST_SECRET_VALUE'' \<longleftrightarrow>
              env_NODE_ENV e = Some (js ''test'') \<or> \<not> existsSync f watchDir)))"
proof (intro conjI allI impI)
  fix c s m
  assume "readFileSync f (SECRET_PATH e) = Inr c \<and> statSync f (SECRET_PATH e) = Inr s
        \<and> toISOString (mtime s) = Inr m"
  then show "\<exists>st'. readSecretFromDisk e f now st = Inr (trim c, st')
         \<and> secretCache st' =
             \<lparr>value_c = Some (trim c), lastUpdated = Some now, fileModified = Some m,
              watcherActive = watcherActive (secretCache st)\<rparr>"
    by (simp add: readSecret_readable log_def)
next
  assume "\<not> (\<exists>c s m. readFileSync f (SECRET_PATH e) = Inr c \<and> statSync f (SECRET_PATH e) = Inr s
            \<and> toISOString (mtime s) = Inr m)"
  then have "\<not> readable e f"
    by (simp add: readable_cases)
  from readSecret_unreadable [OF this, of now st]
  show "\<exists>v st'. readSecretFromDisk e f now st = Inr (v, st')
         \<and> secretCache st' = secretCache st
         \<and> (v = js ''TEST_SECRET_VALUE'' \<or> v = js ''SECRET_NOT_AVAILABLE'')
         \<and> (v = js ''TEST_SECRET_VALUE'' \<longleftrightarrow>
              env_NODE_ENV e = Some (js ''test'') \<or> \<not> existsSync f watchDir)"
    by (auto simp: js_def)
qed

theorem read_all_or_nothing_witness:
  "(\<exists>st'. readSecretFromDisk env_default fs_mounted (ISO 42) initial_state
             = Inr (js ''abc123'', st')
      \<and> secretCache st' =
          \<lparr>value_c = Some (js ''abc123''), lastUpdated = Some (ISO 42),
           fileModified = Some (ISO 1700000000000), watcherActive = False\<rparr>)
   \<and> (\<exists>st'. readSecretFromDisk env_default fs_dir_only (ISO 42) initial_state
               = Inr (js ''SECRET_NOT_AVAILABLE'', st')
      \<and> secretCache st' = secretCache initial_state)
   \<and> (\<exists>st'. readSecretFromDisk env_default fs_bad_mtime (ISO 42) initial_state
               = Inr (js ''SECRET_NOT_AVAILABLE'', st')
      \<and> secretCache st' = secretCache initial_state)"
proof -
  have a: "readFileSync fs_mounted (SECRET_PATH env_default) = Inr (js ''abc123\<newline>'')
      \<and> statSync fs_mounted (SECRET_PATH env_default) = Inr \<lparr>mtime = 1700000000000\<rparr>
      \<and> toISOString (mtime \<lparr>mtime = 1700000000000\<rparr>) = Inr (ISO 1700000000000)"
    by (simp add: example_defs)
  have t: "trim (js ''abc123\<newline>'') = js ''abc123''"
    by (simp add: trim_def trimEnd_def trimStart_def isWhiteSpace_def js_def)
  have w: "watcherActive (secretCache initial_state) = False"
    by (simp add: initial_state_def initial_cache_def)
  have b: "\<not> (\<exists>c s m. readFileSync fs_dir_only (SECRET_PATH env_default) = Inr c
            \<and> statSync fs_dir_only (SECRET_PATH env_default) = Inr s
            \<and> toISOString (mtime s) = Inr m)"
    by (simp add: example_defs)
  have b': "\<not> (\<exists>c s m. readFileSync fs_bad_mtime (SECRET_PATH env_default) = Inr c
            \<and> statSync fs_bad_mtime (SECRET_PATH env_default) = Inr s
            \<and> toISOString (mtime s) = Inr m)"
    by (auto simp: example_defs)
  have c: "env_NODE_ENV env_default \<noteq> Some (js ''test'')" "existsSync fs_dir_only watchDir"
      "existsSync fs_bad_mtime watchDir"
    by (simp_all add: example_defs)
  have 1: "\<exists>st'. readSecretFromDisk env_default fs_mounted (ISO 42) initial_state
             = Inr (js ''abc123'', st')
      \<and> secretCache st' =
          \<lparr>value_c = Some (js ''abc123''), lastUpdated = Some (ISO 42),
           fileModified = Some (ISO 1700000000000), watcherActive = False\<rparr>"
    using read_all_or_nothing [of fs_mounted env_default "ISO 42" initial_state] a t w
    by auto
  have 2: "\<exists>st'. readSecretFromDisk env_default fs_dir_only (ISO 42) initial_state
               = Inr (js ''SECRET_NOT_AVAILABLE'', st')
      \<and> secretCache st' = secretCache initial_state"
    using read_all_or_nothing [of fs_dir_only env_default "ISO 42" initial_state] b c by auto
  have 3: "\<exists>st'. readSecretFromDisk env_default fs_bad_mtime (ISO 42) initial_state
               = Inr (js ''SECRET_NOT_AVAILABLE'', st')
      \<and> secretCache st' = secretCache initial_state"
    using read_all_or_nothing [of fs_bad_mtime env_default "ISO 42" initial_state] b' c by auto
  from 1 2 3 show ?thesis by blast
qed




text \<open>
  C10. Every call of \<^verbatim>\<open>readSecretFromDisk\<close> returns, and the \<open>watcherActive\<close> flag
  of the cache after it is the flag before it.
\<close>

theorem read_keeps_watcherActive:
  "\<exists>v st'. readSecretFromDisk e f now st = Inr (v, st')
     \<and> watcherActive (secretCache st') = watcherActive (secretCache st)"
  by (auto simp: readSecretFromDisk_def readSecret_try_def readSecret_catch_def
      log_def Let_def split: sum.splits)

theorem read_keeps_watcherActive_witness:
  "\<exists>v st'. readSecretFromDisk env_default fs_mounted (ISO 42) initial_state = Inr (v, st')
     \<and> watcherActive (secretCache st') = watcherActive (secretCache initial_state)"
  using read_keeps_watcherActive [of env_default fs_mounted "ISO 42" initial_state] by simp

subsection \<open>The diagnostic endpoint and failures\<close>

text \<open>
  C3, as the code has it. When the configured secret path does not exist, so that
  \<^verbatim>\<open>existsSync\<close> is false and the read fails, \<^verbatim>\<open>/secret-info\<close> answers with status
  200 and the reduced record: \<open>exists = false\<close>, the configured path, mode
  \<^verbatim>\<open>fallback\<close>, and as value the placeholder \<^verbatim>\<open>TEST_SECRET_VALUE\<close> in test mode or
  without \<^verbatim>\<open>/mnt/secrets-store\<close>, and the sentinel \<^verbatim>\<open>SECRET_NOT_AVAILABLE\<close> otherwise.
  The cache is left as it was.
\<close>

theorem secret_info_missing_path:
  assumes "\<not> existsSync f (SECRET_PATH e)" and "\<not> readable e f"
  shows "\<exists>st'. get_secret_info e f now st =
           Inr (\<lparr>status = 200,
                 body = InfoReduced
                          (if env_NODE_ENV e = Some (js ''test'') \<or> \<not> existsSync f watchDir
                           then js ''TEST_SECRET_VALUE'' else js ''SECRET_NOT_AVAILABLE'')
                          (SECRET_PATH e) False (js ''fallback'')\<rparr>, st')
           \<and> secretCache st' = secretCache st"
proof -
  obtain st1 where "readSecretFromDisk e f now st =
             Inr (if env_NODE_ENV e = Some (js ''test'') \<or> \<not> existsSync f watchDir
                  then js ''TEST_SECRET_VALUE'' else js ''SECRET_NOT_AVAILABLE'', st1)"
      "secretCache st1 = secretCache st"
    using readSecret_unreadable [OF assms(2), of now st] by blast
  with assms(1) show ?thesis
    by (simp add: get_secret_info_def secret_info_try_def getSecret_def)
qed

theorem secret_info_missing_path_witness:
  "\<not> existsSync fs_empty (SECRET_PATH env_default) \<and> \<not> readable env_default fs_empty
   \<and> (\<exists>st'. get_secret_info env_default fs_empty (ISO 7) initial_state =
           Inr (\<lparr>status = 200,
                 body = InfoReduced (js ''TEST_SECRET_VALUE'') (SECRET_PATH env_default) False
                          (js ''fallback'')\<rparr>, st')
           \<and> secretCache st' = secretCache initial_state)"
proof -
  have a: "\<not> existsSync fs_empty (SECRET_PATH env_default)"
    by (simp add: example_defs)
  have b: "\<not> readable env_default fs_empty"
    by (simp add: example_defs)
  have c: "\<not> existsSync fs_empty watchDir"
    by (simp add: example_defs)
  from secret_info_missing_path [OF a b, of "ISO 7" initial_state] a b c show ?thesis by simp
qed

text \<open>
  C3 as stated fails when the directory is mounted without the secret file and the process
  does not run in test mode: the value of the reduced record is the sentinel, not the
  placeholder.
\<close>

theorem secret_info_sentinel_counterexample:
  "\<not> existsSync fs_dir_only (SECRET_PATH env_default)
   \<and> \<not> readable env_default fs_dir_only
   \<and> get_secret_info env_default fs_dir_only (ISO 7) initial_state
     = Inr (\<lparr>status = 200,
              body = InfoReduced (js ''SECRET_NOT_AVAILABLE'') (js ''/mnt/secrets-store/my-secret'')
                       False (js ''fallback'')\<rparr>,
            log (ErrorReadingSecret (FsError ENOENT)) initial_state)
   \<and> js ''SECRET_NOT_AVAILABLE'' \<noteq> js ''TEST_SECRET_VALUE''"
  by (simp add: get_secret_info_def secret_info_try_def getSecret_def readSecretFromDisk_def
      readSecret_try_def readSecret_catch_def example_defs)

text \<open>
  C4, as the code has it. For every filesystem outcome \<^verbatim>\<open>getSecret\<close>, \<^verbatim>\<open>/config\<close>,
  \<^verbatim>\<open>/trigger-reload\<close> and \<^verbatim>\<open>/secret-info\<close> return without throwing. \<^verbatim>\<open>/config\<close> and
  \<^verbatim>\<open>/trigger-reload\<close> always answer with status 200 and their record of the value
  \<^verbatim>\<open>getSecret\<close> returns and the status flags; when the load fails that value is the
  placeholder or the sentinel and the cache is left as it was. \<^verbatim>\<open>/secret-info\<close> answers
  with status 500 and an error body, the cache left as it was, exactly when the secret path
  exists and its \<^verbatim>\<open>stat\<close> fails, or its \<^verbatim>\<open>realpath\<close> fails, or its modification time is
  not a valid date. In every other case it answers with status 200 and the value
  \<^verbatim>\<open>getSecret\<close> returns, in the full record when the path exists and in the reduced
  record, with \<open>exists = false\<close> and mode \<^verbatim>\<open>fallback\<close>, when it does not.
\<close>

theorem handlers_absorb_failures:
  "\<exists>v st1.
     getSecret e f now st = Inr (v, st1)
     \<and> (\<not> readable e f \<longrightarrow>
          (v = js ''TEST_SECRET_VALUE'' \<or> v = js ''SECRET_NOT_AVAILABLE'')
          \<and> secretCache st1 = secretCache st)
     \<and> get_config e f now st =
         Inr (\<lparr>status = 200,
               body = ConfigBody v now (lastUpdated (secretCache st1))
                        (watcherActive (secretCache st1))\<rparr>, st1)
     \<and> get_trigger_reload e f now st =
         Inr (\<lparr>status = 200,
               body = ReloadBody (js ''Manual reload triggered'')
                        (value_c (secretCache st) \<noteq> Some v) (value_c (secretCache st)) v now\<rparr>,
              st1)
     \<and> (\<exists>r st2. get_secret_info e f now st = Inr (r, st2)
          \<and> (if existsSync f (SECRET_PATH e)
                  \<and> (\<not> mtime_ok e f \<or> isl (realpathSync f (SECRET_PATH e)))
              then status r = 500 \<and> (\<exists>err. body r = ErrorBody err)
                \<and> secretCache st2 = secretCache st
              else status r = 200 \<and> st2 = st1
                \<and> (if existsSync f (SECRET_PATH e)
                    then \<exists>rp m. body r =
                           InfoFull v (SECRET_PATH e) rp (rp \<noteq> SECRET_PATH e) m
                             (lastUpdated (secretCache st1)) (watcherActive (secretCache st1))
                    else body r = InfoReduced v (SECRET_PATH e) False (js ''fallback''))))"
proof -
  obtain v st1 where rd: "readSecretFromDisk e f now st = Inr (v, st1)"
      "\<not> readable e f \<longrightarrow> v = js ''TEST_SECRET_VALUE'' \<or> v = js ''SECRET_NOT_AVAILABLE''"
    using readSecret_total [of e f now st] by blast
  have fr: "\<not> readable e f \<longrightarrow> secretCache st1 = secretCache st"
    using read_effect [of e f now st] rd(1) by auto
  have 1: "getSecret e f now st = Inr (v, st1)"
    using rd by (simp add: getSecret_def)
  have 2: "get_config e f now st =
         Inr (\<lparr>status = 200,
               body = ConfigBody v now (lastUpdated (secretCache st1))
                        (watcherActive (secretCache st1))\<rparr>, st1)"
    using 1 by (simp add: get_config_def)
  have 3: "get_trigger_reload e f now st =
         Inr (\<lparr>status = 200,
               body = ReloadBody (js ''Manual reload triggered'')
                        (value_c (secretCache st) \<noteq> Some v) (value_c (secretCache st)) v now\<rparr>,
              st1)"
    using rd by (simp add: get_trigger_reload_def Let_def)
  have 4: "\<exists>r st2. get_secret_info e f now st = Inr (r, st2)
          \<and> (if existsSync f (SECRET_PATH e)
                  \<and> (\<not> mtime_ok e f \<or> isl (realpathSync f (SECRET_PATH e)))
              then status r = 500 \<and> (\<exists>err. body r = ErrorBody err)
                \<and> secretCache st2 = secretCache st
              else status r = 200 \<and> st2 = st1
                \<and> (if existsSync f (SECRET_PATH e)
                    then \<exists>rp m. body r =
                           InfoFull v (SECRET_PATH e) rp (rp \<noteq> SECRET_PATH e) m
                             (lastUpdated (secretCache st1)) (watcherActive (secretCache st1))
                    else body r = InfoReduced v (SECRET_PATH e) False (js ''fallback'')))"
  proof (cases "existsSync f (SECRET_PATH e)")
    case False
    with 1 show ?thesis
      by (simp add: get_secret_info_def secret_info_try_def)
  next
    case True
    show ?thesis
    proof (cases "statSync f (SECRET_PATH e)")
      case (Inl err)
      with True show ?thesis
        by (simp add: get_secret_info_def secret_info_try_def mtime_ok_def)
    next
      case (Inr s)
      note st = this
      show ?thesis
      proof (cases "realpathSync f (SECRET_PATH e)")
        case (Inl err)
        with True st show ?thesis
          by (simp add: get_secret_info_def secret_info_try_def)
      next
        case (Inr rp)
        note rp = this
        show ?thesis
        proof (cases "toISOString (mtime s)")
          case (Inl err)
          then have "\<not> readable e f"
            using st by (simp add: readable_def mtime_ok_def)
          with fr True st rp Inl 1 show ?thesis
            by (simp add: get_secret_info_def secret_info_try_def mtime_ok_def)
        next
          case (Inr m)
          with True st rp 1 show ?thesis
            by (simp add: get_secret_info_def secret_info_try_def mtime_ok_def)
        qed
      qed
    qed
  qed
  from 1 rd(2) fr 2 3 4 show ?thesis by blast
qed

theorem handlers_absorb_failures_witness:
  "\<not> readable env_default fs_dir_only
   \<and> (\<exists>v st1. get_trigger_reload env_default fs_dir_only (ISO 9) initial_state
        = Inr (\<lparr>status = 200,
                body = ReloadBody (js ''Manual reload triggered'') True None v (ISO 9)\<rparr>, st1)
        \<and> (v = js ''TEST_SECRET_VALUE'' \<or> v = js ''SECRET_NOT_AVAILABLE'')
        \<and> secretCache st1 = secretCache initial_state)
   \<and> existsSync fs_stat_error (SECRET_PATH env_default)
   \<and> \<not> mtime_ok env_default fs_stat_error
   \<and> (\<exists>r st2. get_secret_info env_default fs_stat_error (ISO 9) initial_state = Inr (r, st2)
        \<and> status r = 500)
   \<and> existsSync fs_bad_mtime (SECRET_PATH env_default)
   \<and> \<not> mtime_ok env_default fs_bad_mtime
   \<and> (\<exists>r st2. get_secret_info env_default fs_bad_mtime (ISO 9) initial_state = Inr (r, st2)
        \<and> status r = 500)
   \<and> (\<exists>r st2. get_secret_info env_default fs_mounted (ISO 9) initial_state = Inr (r, st2)
        \<and> status r = 200)"
proof -
  have a: "\<not> readable env_default fs_dir_only"
    by (simp add: example_defs)
  have i: "value_c (secretCache initial_state) = None"
    by (simp add: initial_state_def initial_cache_def)
  have b: "existsSync fs_stat_error (SECRET_PATH env_default)"
      "\<not> mtime_ok env_default fs_stat_error"
    by (simp_all add: example_defs)
  have c: "existsSync fs_bad_mtime (SECRET_PATH env_default)"
      "\<not> mtime_ok env_default fs_bad_mtime"
    by (simp_all add: example_defs)
  have d: "existsSync fs_mounted (SECRET_PATH env_default)" "mtime_ok env_default fs_mounted"
      "\<not> isl (realpathSync fs_mounted (SECRET_PATH env_default))"
    by (simp_all add: example_defs)
  have 1: "\<exists>v st1. get_trigger_reload env_default fs_dir_only (ISO 9) initial_state
        = Inr (\<lparr>status = 200,
                body = ReloadBody (js ''Manual reload triggered'') True None v (ISO 9)\<rparr>, st1)
        \<and> (v = js ''TEST_SECRET_VALUE'' \<or> v = js ''SECRET_NOT_AVAILABLE'')
        \<and> secretCache st1 = secretCache initial_state"
    using handlers_absorb_failures [of env_default fs_dir_only "ISO 9" initial_state] a i
    by auto
  have 2: "\<exists>r st2. get_secret_info env_default fs_stat_error (ISO 9) initial_state = Inr (r, st2)
        \<and> status r = 500"
    using handlers_absorb_failures [of env_default fs_stat_error "ISO 9" initial_state] b
    by auto
  have 3: "\<exists>r st2. get_secret_info env_default fs_bad_mtime (ISO 9) initial_state = Inr (r, st2)
        \<and> status r = 500"
    using handlers_absorb_failures [of env_default fs_bad_mtime "ISO 9" initial_state] c
    by auto
  have 4: "\<exists>r st2. get_secret_info env_default fs_mounted (ISO 9) initial_state = Inr (r, st2)
        \<and> status r = 200"
    using handlers_absorb_failures [of env_default fs_mounted "ISO 9" initial_state] d
    by auto
  from a 1 b 2 c 3 4 show ?thesis by blast
qed

text \<open>
  C4 as stated fails for \<^verbatim>\<open>/secret-info\<close> on a \<^verbatim>\<open>stat\<close> error: the answer is status
  500 with the error, neither a sentinel value nor a status flag.
\<close>

theorem secret_info_status_500_counterexample:
  "get_secret_info env_default fs_stat_error (ISO 7) initial_state
     = Inr (\<lparr>status = 500, body = ErrorBody (FsError EIO)\<rparr>, initial_state)"
  by (simp add: get_secret_info_def secret_info_try_def example_defs)

text \<open>
  C6, as the code has it. When \<^verbatim>\<open>/mnt/secrets-store\<close> is absent and the configured secret
  path does not exist and cannot be read, \<^verbatim>\<open>getSecret\<close> returns the placeholder
  \<^verbatim>\<open>TEST_SECRET_VALUE\<close>, leaving the cache as it was, and \<^verbatim>\<open>/secret-info\<close> answers
  with the reduced record with \<open>exists = false\<close> and the placeholder as value.
\<close>

theorem fallback_without_root:
  assumes "\<not> existsSync f watchDir"
    and "\<not> existsSync f (SECRET_PATH e)" and "\<not> readable e f"
  shows "(\<exists>st'. getSecret e f now st = Inr (js ''TEST_SECRET_VALUE'', st')
            \<and> secretCache st' = secretCache st)
         \<and> (\<exists>st'. get_secret_info e f now st =
               Inr (\<lparr>status = 200,
                     body = InfoReduced (js ''TEST_SECRET_VALUE'') (SECRET_PATH e) False
                              (js ''fallback'')\<rparr>, st'))"
proof -
  obtain st1 where "readSecretFromDisk e f now st = Inr (js ''TEST_SECRET_VALUE'', st1)"
      "secretCache st1 = secretCache st"
    using readSecret_unreadable [OF assms(3), of now st] assms(1) by auto
  with assms(2) show ?thesis
    by (simp add: get_secret_info_def secret_info_try_def getSecret_def)
qed

theorem fallback_without_root_witness:
  "\<not> existsSync fs_empty watchDir \<and> \<not> existsSync fs_empty (SECRET_PATH env_default)
   \<and> \<not> readable env_default fs_empty
   \<and> (\<exists>st'. getSecret env_default fs_empty (ISO 3) initial_state = Inr (js ''TEST_SECRET_VALUE'', st')
            \<and> secretCache st' = secretCache initial_state)
   \<and> (\<exists>st'. get_secret_info env_default fs_empty (ISO 3) initial_state =
               Inr (\<lparr>status = 200,
                     body = InfoReduced (js ''TEST_SECRET_VALUE'') (SECRET_PATH env_default) False
                              (js ''fallback'')\<rparr>, st'))"
proof -
  have a: "\<not> existsSync fs_empty watchDir"
    by (simp add: example_defs)
  have b: "\<not> existsSync fs_empty (SECRET_PATH env_default)"
    by (simp add: example_defs)
  have c: "\<not> readable env_default fs_empty"
    by (simp add: example_defs)
  from fallback_without_root [OF a b c, of "ISO 3" initial_state] a b c show ?thesis by blast
qed

text \<open>
  C6 as stated fails when \<^verbatim>\<open>SECRET_PATH\<close> is set to a file outside the absent
  \<^verbatim>\<open>/mnt/secrets-store\<close>: \<^verbatim>\<open>getSecret\<close> returns the content of that file and
  \<^verbatim>\<open>/secret-info\<close> answers with the full record.
\<close>

theorem fallback_overridden_path_counterexample:
  "\<not> existsSync fs_tmp watchDir
   \<and> getSecret env_elsewhere fs_tmp (ISO 3) initial_state
     = Inr (js ''hunter2'',
            log (SecretLoaded (js ''hunter2''))
              (initial_state\<lparr>secretCache :=
                 \<lparr>value_c = Some (js ''hunter2''), lastUpdated = Some (ISO 3),
                  fileModified = Some (ISO 1700000000000), watcherActive = False\<rparr>\<rparr>))
   \<and> js ''hunter2'' \<noteq> js ''TEST_SECRET_VALUE''
   \<and> get_secret_info env_elsewhere fs_tmp (ISO 3) initial_state
     = Inr (\<lparr>status = 200,
              body = InfoFull (js ''hunter2'') (js ''/tmp/secret'') (js ''/tmp/secret'') False
                       (ISO 1700000000000) (Some (ISO 3)) False\<rparr>,
            log (SecretLoaded (js ''hunter2''))
              (initial_state\<lparr>secretCache :=
                 \<lparr>value_c = Some (js ''hunter2''), lastUpdated = Some (ISO 3),
                  fileModified = Some (ISO 1700000000000), watcherActive = False\<rparr>\<rparr>))"
  by (simp add: get_secret_info_def secret_info_try_def getSecret_def readSecretFromDisk_def
      readSecret_try_def readSecret_catch_def env_elsewhere_def fs_tmp_def example_defs
      trim_def trimEnd_def trimStart_def isWhiteSpace_def toISOString_def log_def Let_def)

subsection \<open>The watcher\<close>

text \<open>
  C5, as the code has it. The listener schedules one reload, 100 ms later, exactly when the
  name of the event is the literal \<^verbatim>\<open>my-secret\<close> or the literal \<^verbatim>\<open>..data\<close>; for every
  other name, and for an event without a name, it leaves the whole state as it was. In
  neither case does it touch the cache or the watches. \<^verbatim>\<open>my-secret\<close> is the base filename
  of the secret path when \<^verbatim>\<open>SECRET_PATH\<close> is not set in the environment.
\<close>

theorem listener_filter:
  "(if n = Some (js ''my-secret'') \<or> n = Some (js ''..data'')
    then timers (watchListener t n st) = timers st @ [100]
    else watchListener t n st = st)
   \<and> secretCache (watchListener t n st) = secretCache st
   \<and> watches (watchListener t n st) = watches st
   \<and> (env_SECRET_PATH e = None \<longrightarrow> spec_basename (SECRET_PATH e) = js ''my-secret'')"
  by (simp add: watchListener_def log_def spec_basename_def SECRET_PATH_def js_def)

theorem listener_filter_witness:
  "env_SECRET_PATH env_default = None
   \<and> spec_basename (SECRET_PATH env_default) = js ''my-secret''
   \<and> timers (watchListener (js ''rename'') (Some (js ''..data'')) initial_state)
       = timers initial_state @ [100]
   \<and> watchListener (js ''rename'') (Some (js ''token'')) initial_state = initial_state"
proof -
  have a: "env_SECRET_PATH env_default = None"
    by (simp add: env_default_def)
  have b: "Some (js ''token'') \<noteq> Some (js ''my-secret'')"
      "Some (js ''token'') \<noteq> Some (js ''..data'')"
    by (simp_all add: js_def)
  from listener_filter [of "Some (js ''..data'')" "js ''rename''" initial_state env_default]
    listener_filter [of "Some (js ''token'')" "js ''rename''" initial_state env_default] a b
  show ?thesis by simp
qed

text \<open>
  C5 as stated fails when \<^verbatim>\<open>SECRET_PATH\<close> names another file: an event for the base
  filename of the configured path schedules nothing, and an event for \<^verbatim>\<open>my-secret\<close>,
  which is not that base filename, schedules a reload.
\<close>

theorem listener_configured_name_counterexample:
  "spec_basename (SECRET_PATH env_override) = js ''db-password''
   \<and> watchListener (js ''rename'') (Some (js ''db-password'')) initial_state = initial_state
   \<and> js ''my-secret'' \<noteq> spec_basename (SECRET_PATH env_override)
   \<and> js ''my-secret'' \<noteq> js ''..data''
   \<and> timers (watchListener (js ''rename'') (Some (js ''my-secret'')) initial_state) = [100]"
  by (simp add: spec_basename_def watchListener_def log_def env_override_def example_defs)

text \<open>
  C7. A call of \<^verbatim>\<open>setupFileWatcher\<close> while \<open>watcherActive\<close> is true returns normally
  and changes neither the cache, nor the watches, nor the timers. Along every run, from any
  state, \<open>watcherActive\<close> changes from false to true at most once; and in every state of a
  run from the initial state at most one watch is installed.
\<close>

theorem watcher_setup_once:
  "(watcherActive (secretCache st) \<longrightarrow>
      (\<exists>st'. setupFileWatcher e f st = Inr ((), st')
         \<and> secretCache st' = secretCache st \<and> watches st' = watches st
         \<and> timers st' = timers st \<and> watcherActive (secretCache st')))
   \<and> rises (map (\<lambda>s. watcherActive (secretCache s)) (run e tr st0)) \<le> 1
   \<and> (\<forall>s \<in> set (run e tr initial_state). length (watches s) \<le> 1)"
proof (intro conjI impI)
  assume "watcherActive (secretCache st)"
  then show "\<exists>st'. setupFileWatcher e f st = Inr ((), st')
         \<and> secretCache st' = secretCache st \<and> watches st' = watches st
         \<and> timers st' = timers st \<and> watcherActive (secretCache st')"
    by (simp add: setup_active log_def)
next
  show "rises (map (\<lambda>s. watcherActive (secretCache s)) (run e tr st0)) \<le> 1"
    by (rule rises_run)
next
  have "watch_inv initial_state"
    by (simp add: watch_inv_def initial_state_def initial_cache_def)
  then have "\<forall>s \<in> set (run e tr initial_state). watch_inv s"
    by (rule run_all) (rule step_watch_inv)
  then show "\<forall>s \<in> set (run e tr initial_state). length (watches s) \<le> 1"
    by (auto simp: watch_inv_def split: if_splits)
qed

theorem watcher_setup_once_witness:
  "watcherActive (secretCache state_active)
   \<and> after (setupFileWatcher env_default fs_mounted initial_state) = state_active
   \<and> (\<exists>st'. setupFileWatcher env_default fs_mounted state_active = Inr ((), st')
         \<and> secretCache st' = secretCache state_active \<and> watches st' = [watchDir]
         \<and> watcherActive (secretCache st'))
   \<and> rises (map (\<lambda>s. watcherActive (secretCache s))
        (run env_default setup_twice initial_state)) \<le> 1
   \<and> length (watches (last (run env_default setup_twice initial_state))) \<le> 1
   \<and> map (\<lambda>s. (watcherActive (secretCache s), watches s))
        (run env_default setup_twice initial_state)
     = [(False, []), (True, [watchDir]), (True, [watchDir])]"
proof -
  have a: "watcherActive (secretCache state_active)"
    by (simp add: state_active_def)
  have b: "after (setupFileWatcher env_default fs_mounted initial_state) = state_active"
    by (simp add: setupFileWatcher_def after_def log_def Let_def state_active_def example_defs)
  have c: "watches state_active = [watchDir]"
    by (simp add: state_active_def)
  have d: "\<exists>st'. setupFileWatcher env_default fs_mounted state_active = Inr ((), st')
         \<and> secretCache st' = secretCache state_active \<and> watches st' = [watchDir]
         \<and> watcherActive (secretCache st')"
    using watcher_setup_once [of state_active env_default fs_mounted setup_twice initial_state] a c
    by auto
  have e: "rises (map (\<lambda>s. watcherActive (secretCache s))
        (run env_default setup_twice initial_state)) \<le> 1"
    using watcher_setup_once [of state_active env_default fs_mounted setup_twice initial_state]
    by blast
  have "last (run env_default setup_twice initial_state)
          \<in> set (run env_default setup_twice initial_state)"
    using run_head [of env_default setup_twice initial_state] by auto
  then have f: "length (watches (last (run env_default setup_twice initial_state))) \<le> 1"
    using watcher_setup_once [of state_active env_default fs_mounted setup_twice initial_state]
    by blast
  from a b d e f setup_twice_run show ?thesis by blast
qed

subsection \<open>The cache before the first successful read\<close>

text \<open>
  C9. In a run from the initial state in which the secret cannot be loaded at any step that
  may call \<^verbatim>\<open>readSecretFromDisk\<close>, the cached value and \<open>lastUpdated\<close> are
  \<^verbatim>\<open>null\<close> in every state: the placeholder and the sentinel are returned, never stored.
\<close>

theorem cache_null_until_success:
  assumes "\<forall>(f, now, ev) \<in> set tr. may_read ev \<longrightarrow> \<not> readable e f"
  shows "\<forall>s \<in> set (run e tr initial_state).
           value_c (secretCache s) = None \<and> lastUpdated (secretCache s) = None"
proof (rule run_all)
  show "value_c (secretCache initial_state) = None \<and> lastUpdated (secretCache initial_state) = None"
    by (simp add: initial_state_def initial_cache_def)
next
  fix x and s :: state
  assume x: "x \<in> set tr"
    and s: "value_c (secretCache s) = None \<and> lastUpdated (secretCache s) = None"
  obtain f now ev where xe: "x = (f, now, ev)" by (cases x)
  with x assms have "may_read ev \<longrightarrow> \<not> readable e f" by auto
  from step_unreadable [OF this, of now s] s xe
  show "value_c (secretCache (step e x s)) = None \<and> lastUpdated (secretCache (step e x s)) = None"
    by simp
qed

theorem cache_null_until_success_witness:
  "\<not> readable env_default fs_empty \<and> \<not> readable env_default fs_dir_only
   \<and> \<not> readable env_default fs_stat_error \<and> \<not> readable env_default fs_bad_mtime
   \<and> value_c (secretCache (last (run env_default failing_run initial_state))) = None
   \<and> lastUpdated (secretCache (last (run env_default failing_run initial_state))) = None
   \<and> get_config env_default fs_dir_only (ISO 7) initial_state
     = Inr (\<lparr>status = 200,
              body = ConfigBody (js ''SECRET_NOT_AVAILABLE'') (ISO 7) None False\<rparr>,
            log (ErrorReadingSecret (FsError ENOENT)) initial_state)"
proof -
  have r: "\<not> readable env_default fs_empty" "\<not> readable env_default fs_dir_only"
      "\<not> readable env_default fs_stat_error" "\<not> readable env_default fs_bad_mtime"
    by (simp_all add: example_defs)
  then have a: "\<forall>(f, now, ev) \<in> set failing_run. may_read ev \<longrightarrow> \<not> readable env_default f"
    by (simp add: failing_run_def)
  have b: "get_config env_default fs_dir_only (ISO 7) initial_state
     = Inr (\<lparr>status = 200,
              body = ConfigBody (js ''SECRET_NOT_AVAILABLE'') (ISO 7) None False\<rparr>,
            log (ErrorReadingSecret (FsError ENOENT)) initial_state)"
    by (simp add: get_config_def getSecret_def readSecretFromDisk_def readSecret_try_def
        readSecret_catch_def toISOString_def log_def example_defs)
  have "last (run env_default failing_run initial_state)
          \<in> set (run env_default failing_run initial_state)"
    using run_head [of env_default failing_run initial_state] by auto
  with cache_null_until_success [OF a]
  have c: "value_c (secretCache (last (run env_default failing_run initial_state))) = None
      \<and> lastUpdated (secretCache (last (run env_default failing_run initial_state))) = None"
    by blast
  from r b c show ?thesis by blast
qed

end
